theory Spec2Isabelle
  imports Main
begin

section \<open>Python values used by main.py\<close>

text \<open>
  A Python \<open>str\<close> is a sequence of Unicode code points, and \<open>bytes\<close> a sequence of
  octets; both are lists of naturals here. \<open>py\<close> turns a literal of the source into
  its code points.
\<close>

type_synonym py_str = "nat list"

type_synonym py_bytes = "nat list"

definition py :: "string \<Rightarrow> py_str" where
  "py s = map of_char s"

text \<open>
  \<open>str.isspace\<close> on one code point, as \<open>str.strip()\<close> with no argument uses it:
  the code points CPython lists as whitespace.
\<close>

definition isspace :: "nat \<Rightarrow> bool" where
  "isspace c \<longleftrightarrow>
     (0x09 \<le> c \<and> c \<le> 0x0D) \<or> (0x1C \<le> c \<and> c \<le> 0x20) \<or> c = 0x85 \<or> c = 0xA0 \<or>
     c = 0x1680 \<or> (0x2000 \<le> c \<and> c \<le> 0x200A) \<or> c = 0x2028 \<or> c = 0x2029 \<or>
     c = 0x202F \<or> c = 0x205F \<or> c = 0x3000"

definition strip :: "py_str \<Rightarrow> py_str" where
  "strip s = rev (dropWhile isspace (rev (dropWhile isspace s)))"

definition startswith :: "py_str \<Rightarrow> py_str \<Rightarrow> bool" where
  "startswith s p \<longleftrightarrow> take (length p) s = p"

text \<open>
  An exception is its class and \<open>str(e)\<close>, the text an f-string prints for it.
  \<open>GoogleAPIError\<close> stands for the errors of the provider's client
  (\<open>google.api_core.exceptions.GoogleAPIError\<close> and its subclasses),
  \<open>OtherException\<close> for every other subclass of \<open>Exception\<close> a collaborator
  raises (\<open>PIL.UnidentifiedImageError\<close>, \<open>OSError\<close>, a transport error, ...).
\<close>

datatype exn_class = GoogleAPIError | AttributeError | ValueError | RuntimeError | OtherException

datatype exn = Exn exn_class py_str

datatype json = JNull | JString py_str

definition json_of_optional :: "py_str option \<Rightarrow> json" where
  "json_of_optional v = (case v of None \<Rightarrow> JNull | Some s \<Rightarrow> JString s)"

section \<open>The request and its collaborators\<close>

text \<open>
  Starlette's \<open>UploadFile\<close>: \<open>content_type\<close> and \<open>filename\<close> are both
  \<open>str | None\<close> (a multipart part need not carry a Content-Type header).
\<close>

record upload =
  content_type :: "py_str option"
  filename :: "py_str option"
  body :: py_bytes

text \<open>One element of the \<open>contents\<close> list handed to the model: a text or an image.\<close>

datatype 'img part = Text py_str | Img 'img

text \<open>
  The object \<open>generate_content\<close> returns; reading its \<open>text\<close> property can itself
  raise.
\<close>

datatype response = Response "exn + py_str"

fun response_text :: "response \<Rightarrow> exn + py_str" where
  "response_text (Response t) = t"

text \<open>
  What the handler calls and does not define: \<open>await file.read()\<close>,
  \<open>Image.open(io.BytesIO(...))\<close> and \<open>model.generate_content(...)\<close>. Each returns
  a value or raises.
\<close>

record ('img, 'model) collaborators =
  file_read :: "upload \<Rightarrow> exn + py_bytes"
  Image_open :: "py_bytes \<Rightarrow> exn + 'img"
  generate_content :: "'model \<Rightarrow> 'img part list \<Rightarrow> exn + response"

text \<open>
  How a call of the handler ends: it returns a \<open>JSONResponse\<close> (status code, 200
  when the source passes none, and content), raises an \<open>HTTPException\<close> (status code
  and detail, which FastAPI answers with the body \<open>{"detail": ...}\<close>), or raises
  something else that none of its \<open>except\<close> clauses catches.
\<close>

datatype outcome =
    JSONResponse nat "(string \<times> json) list"
  | HTTPException nat py_str
  | Uncaught exn

section \<open>main.py\<close>

definition IMAGE_CAPTIONING_PROMPT :: py_str where
  "IMAGE_CAPTIONING_PROMPT = py
    ''\<newline>Describe this image in detail. Focus on the main subjects, actions, setting, colors, and any discernible emotions or atmosphere.\<newline>Provide a concise yet comprehensive caption, suitable for accessibility purposes or a brief summary.\<newline>Make sure to include any notable features or context that would help someone understand the image without seeing it.\<newline>Translate to bahasa indonesia if necessary.\<newline>''"

text \<open>
  Lines 13 to 24: the module's start. \<open>environ\<close> is the process environment as
  \<open>os.getenv\<close> sees it at line 13, \<open>GenerativeModel\<close> the constructor of the model
  handle. The result is the exception that ends the import, or the key and the handle.
\<close>

definition startup ::
  "(py_str \<rightharpoonup> py_str) \<Rightarrow> (py_str \<Rightarrow> exn + 'model) \<Rightarrow> exn + (py_str \<times> 'model)" where
  "startup environ GenerativeModel =
     (case environ (py ''GOOGLE_API_KEY'') of
        None \<Rightarrow> Inl (Exn ValueError
          (py ''GOOGLE_API_KEY not found in environment variables. Please set it in a .env file.''))
      | Some GEMINI_API_KEY \<Rightarrow>
          if GEMINI_API_KEY = [] then Inl (Exn ValueError
            (py ''GOOGLE_API_KEY not found in environment variables. Please set it in a .env file.''))
          else
            (case GenerativeModel (py ''gemini-2.5-flash-preview-04-17'') of
               Inl (Exn c e) \<Rightarrow> Inl (Exn RuntimeError
                 (py ''Failed to initialize Gemini model. Make sure 'gemini-2.5-flash-preview-04-17' is available and your API key is correct. Error: '' @ e))
             | Inr model \<Rightarrow> Inr (GEMINI_API_KEY, model)))"

text \<open>
  Lines 62 to 83, the body of the \<open>try\<close>: the value returned or the exception
  raised, with the list of \<open>contents\<close> that \<open>generate_content\<close> was called with.
\<close>

definition try_body ::
  "('img, 'model) collaborators \<Rightarrow> 'model \<Rightarrow> upload \<Rightarrow> (exn + outcome) \<times> 'img part list list" where
  "try_body w model file =
     (case file_read w file of
        Inl e \<Rightarrow> (Inl e, [])
      | Inr image_data \<Rightarrow>
          (case Image_open w image_data of
             Inl e \<Rightarrow> (Inl e, [])
           | Inr img \<Rightarrow>
               (let contents = [Text IMAGE_CAPTIONING_PROMPT, Img img] in
                (case generate_content w model contents of
                   Inl e \<Rightarrow> (Inl e, [contents])
                 | Inr response \<Rightarrow>
                     (case response_text response of
                        Inl e \<Rightarrow> (Inl e, [contents])
                      | Inr t \<Rightarrow>
                          (let caption = strip t;
                               caption = (if caption = []
                                          then py ''No caption could be generated for this image.''
                                          else caption)
                           in (Inr (JSONResponse 200
                                      [(''filename'', json_of_optional (filename file)),
                                       (''caption'', JString caption)]),
                               [contents])))))))"

text \<open>
  The expression \<open>genai.APIError\<close> of line 85, with \<open>genai\<close> the module
  \<open>google.generativeai\<close> of line 5: the module has no attribute of that name, so
  evaluating the expression raises \<open>AttributeError\<close> instead of giving a class.
\<close>

definition genai_APIError :: "exn + exn_class" where
  "genai_APIError = Inl (Exn AttributeError
     (py (''module 'google.generativeai' has no attribute 'APIError'' @ [CHR 0x27])))"

text \<open>
  Lines 85 to 89, the two \<open>except\<close> clauses, in the source's order, for an exception
  raised in the \<open>try\<close>. Python evaluates the expression of a clause when the exception
  reaches it, and an exception raised by that evaluation is not caught by the clauses
  of the same \<open>try\<close>: it leaves the handler.
\<close>

fun except_clauses :: "exn \<Rightarrow> outcome" where
  "except_clauses (Exn c e) =
     (case genai_APIError of
        Inl raised \<Rightarrow> Uncaught raised
      | Inr APIError \<Rightarrow>
          if c = APIError then HTTPException 500 (py ''Gemini API Error: '' @ e)
          else HTTPException 500 (py ''An unexpected error occurred: '' @ e))"

text \<open>
  Lines 59 to 89, the handler. \<open>file.content_type.startswith\<close> on \<open>None\<close> raises
  \<open>AttributeError\<close> before the \<open>try\<close> is entered.
\<close>

definition caption_image ::
  "('img, 'model) collaborators \<Rightarrow> 'model \<Rightarrow> upload \<Rightarrow> outcome \<times> 'img part list list" where
  "caption_image w model file =
     (case content_type file of
        None \<Rightarrow> (Uncaught (Exn AttributeError
                   (py ('''NoneType' object has no attribute 'startswith'' @ [CHR 0x27]))), [])
      | Some ct \<Rightarrow>
          if \<not> startswith ct (py ''image/'')
          then (HTTPException 400 (py ''Invalid file type. Please upload an image.''), [])
          else
            (case try_body w model file of
               (Inr r, calls) \<Rightarrow> (r, calls)
             | (Inl e, calls) \<Rightarrow> (except_clauses e, calls)))"

text \<open>
  The module is imported first and requests reach the handler of its \<open>app\<close> only
  after the import has returned: a failed start answers no request.
\<close>

definition serve ::
  "(py_str \<rightharpoonup> py_str) \<Rightarrow> (py_str \<Rightarrow> exn + 'model) \<Rightarrow> ('img, 'model) collaborators \<Rightarrow>
     upload list \<Rightarrow> exn + (outcome \<times> 'img part list list) list" where
  "serve environ GenerativeModel w requests =
     (case startup environ GenerativeModel of
        Inl e \<Rightarrow> Inl e
      | Inr (GEMINI_API_KEY, model) \<Rightarrow> Inr (map (caption_image w model) requests))"

section \<open>Test doubles and uploads\<close>

text \<open>
  The stub decodes any non-empty upload (to its length) and answers every prompt with
  one sentence padded with whitespace.
\<close>

definition stub :: "(nat, unit) collaborators" where
  "stub = \<lparr> file_read = (\<lambda>f. Inr (body f)),
            Image_open = (\<lambda>b. if b = []
                                then Inl (Exn OtherException (py ''cannot identify image file''))
                                else Inr (length b)),
            generate_content = (\<lambda>m c. Inr (Response (Inr (py '' A small red square.\<newline>'')))) \<rparr>"

definition test_png :: upload where
  "test_png = \<lparr> content_type = Some (py ''image/png''), filename = Some (py ''test.png''),
                body = [137, 80, 78, 71] \<rparr>"

definition notes_txt :: upload where
  "notes_txt = \<lparr> content_type = Some (py ''text/plain''), filename = Some (py ''notes.txt''),
                 body = [104, 105] \<rparr>"

text \<open>
  Variants of the stub: a model that answers with whitespace only, a model whose call
  fails with a provider error, and a model that answers only the request made of the
  prompt and the image of \<open>test_png\<close> and fails on every other. Then an image upload
  with no bytes and an upload whose part declares no content-type.
\<close>

definition blank_stub :: "(nat, unit) collaborators" where
  "blank_stub = stub \<lparr> generate_content := (\<lambda>m c. Inr (Response (Inr (py '' \<newline> '')))) \<rparr>"

definition quota_stub :: "(nat, unit) collaborators" where
  "quota_stub =
     stub \<lparr> generate_content := (\<lambda>m c. Inl (Exn GoogleAPIError (py ''429 quota exceeded''))) \<rparr>"

definition strict_generate :: "unit \<Rightarrow> nat part list \<Rightarrow> exn + response" where
  "strict_generate m c =
     (if c = [Text IMAGE_CAPTIONING_PROMPT, Img 4]
      then Inr (Response (Inr (py '' A small red square.\<newline>'')))
      else Inl (Exn GoogleAPIError (py ''400 unexpected request'')))"

definition strict_stub :: "(nat, unit) collaborators" where
  "strict_stub = stub \<lparr> generate_content := strict_generate \<rparr>"

definition empty_png :: upload where
  "empty_png = \<lparr> content_type = Some (py ''image/png''), filename = Some (py ''empty.png''),
                 body = [] \<rparr>"

definition untyped_upload :: upload where
  "untyped_upload = \<lparr> content_type = None, filename = Some (py ''blob''), body = [137, 80, 78, 71] \<rparr>"

section \<open>Properties of the caption endpoint\<close>

subsection \<open>Evaluating the test double\<close>

lemma startswith_image_png: "startswith (py ''image/png'') (py ''image/'')"
  by (simp add: startswith_def py_def)

lemma not_startswith_text_plain: "\<not> startswith (py ''text/plain'') (py ''image/'')"
  by (simp add: startswith_def py_def)

lemma strip_sample: "strip (py '' A small red square.\<newline>'') = py ''A small red square.''"
  by (simp add: strip_def py_def isspace_def)

lemma strip_blank: "strip (py '' \<newline> '') = []"
  by (simp add: strip_def py_def isspace_def)

lemma stub_reads_png: "file_read stub test_png = Inr [137, 80, 78, 71]"
  by (simp add: stub_def test_png_def)

lemma stub_opens_png: "Image_open stub [137, 80, 78, 71] = Inr 4"
  by (simp add: stub_def)

lemma test_png_type: "content_type test_png = Some (py ''image/png'')"
  by (simp add: test_png_def)

lemma test_png_name: "json_of_optional (filename test_png) = JString (py ''test.png'')"
  by (simp add: json_of_optional_def test_png_def)

subsection \<open>The paths through the handler\<close>

lemma try_body_success:
  assumes "file_read w file = Inr image_data"
    and "Image_open w image_data = Inr img"
    and "generate_content w model [Text IMAGE_CAPTIONING_PROMPT, Img img] = Inr response"
    and "response_text response = Inr t"
  shows "try_body w model file =
     (Inr (JSONResponse 200
             [(''filename'', json_of_optional (filename file)),
              (''caption'', JString (if strip t = []
                                     then py ''No caption could be generated for this image.''
                                     else strip t))]),
      [[Text IMAGE_CAPTIONING_PROMPT, Img img]])"
  using assms by (simp add: try_body_def Let_def)

lemma try_body_read_fails:
  "file_read w file = Inl e \<Longrightarrow> try_body w model file = (Inl e, [])"
  by (simp add: try_body_def)

lemma try_body_decode_fails:
  "file_read w file = Inr image_data \<Longrightarrow> Image_open w image_data = Inl e \<Longrightarrow>
   try_body w model file = (Inl e, [])"
  by (simp add: try_body_def)

lemma try_body_generate_fails:
  assumes "file_read w file = Inr image_data"
    and "Image_open w image_data = Inr img"
    and "generate_content w model [Text IMAGE_CAPTIONING_PROMPT, Img img] = Inl e"
  shows "try_body w model file = (Inl e, [[Text IMAGE_CAPTIONING_PROMPT, Img img]])"
  using assms by (simp add: try_body_def Let_def)

lemma try_body_text_fails:
  assumes "file_read w file = Inr image_data"
    and "Image_open w image_data = Inr img"
    and "generate_content w model [Text IMAGE_CAPTIONING_PROMPT, Img img] = Inr response"
    and "response_text response = Inl e"
  shows "try_body w model file = (Inl e, [[Text IMAGE_CAPTIONING_PROMPT, Img img]])"
  using assms by (simp add: try_body_def Let_def)

lemma caption_image_checked:
  assumes "content_type file = Some ct" and "startswith ct (py ''image/'')"
  shows "caption_image w model file =
           (case try_body w model file of
              (Inr r, calls) \<Rightarrow> (r, calls)
            | (Inl e, calls) \<Rightarrow> (except_clauses e, calls))"
  using assms by (simp add: caption_image_def)

lemma except_clauses_escape:
  "except_clauses e =
     Uncaught (Exn AttributeError
       (py (''module 'google.generativeai' has no attribute 'APIError'' @ [CHR 0x27])))"
  by (cases e) (simp add: genai_APIError_def)

lemma failure_in_try_escapes:
  assumes "content_type file = Some ct" and "startswith ct (py ''image/'')"
    and "try_body w model file = (Inl e, calls)"
  shows "caption_image w model file =
           (Uncaught (Exn AttributeError
              (py (''module 'google.generativeai' has no attribute 'APIError'' @ [CHR 0x27]))),
            calls)"
  using assms by (simp add: caption_image_checked except_clauses_escape)

lemma try_body_calls:
  "snd (try_body w model file) = [] \<or>
   (\<exists>image_data img. file_read w file = Inr image_data \<and> Image_open w image_data = Inr img \<and>
      snd (try_body w model file) = [[Text IMAGE_CAPTIONING_PROMPT, Img img]])"
  by (simp add: try_body_def Let_def split: sum.splits)

lemma caption_image_calls:
  "snd (caption_image w model file) = [] \<or>
   snd (caption_image w model file) = snd (try_body w model file)"
  by (simp add: caption_image_def split: option.splits sum.splits prod.splits)

lemma try_body_shape:
  "(\<exists>e. fst (try_body w model file) = Inl e) \<or>
   (\<exists>caption. fst (try_body w model file) =
      Inr (JSONResponse 200 [(''filename'', json_of_optional (filename file)),
                             (''caption'', JString caption)]))"
  by (simp add: try_body_def Let_def split: sum.splits)

lemma declared_type_outcomes:
  assumes "content_type file = Some ct"
  shows "(\<exists>caption. fst (caption_image w model file) =
            JSONResponse 200 [(''filename'', json_of_optional (filename file)),
                              (''caption'', JString caption)]) \<or>
         (\<exists>detail. fst (caption_image w model file) = HTTPException 400 detail) \<or>
         fst (caption_image w model file) =
           Uncaught (Exn AttributeError
             (py (''module 'google.generativeai' has no attribute 'APIError'' @ [CHR 0x27])))"
proof (cases "startswith ct (py ''image/'')")
  case False
  with assms show ?thesis
    by (simp add: caption_image_def)
next
  case True
  obtain r calls where tb: "try_body w model file = (r, calls)"
    by (cases "try_body w model file")
  show ?thesis
  proof (cases r)
    case (Inl e)
    with assms True tb show ?thesis
      by (simp add: failure_in_try_escapes)
  next
    case (Inr out)
    with try_body_shape [of w model "file"] tb
    obtain caption where
      "out = JSONResponse 200 [(''filename'', json_of_optional (filename file)),
                              (''caption'', JString caption)]"
      by auto
    with assms True tb Inr show ?thesis
      by (simp add: caption_image_checked)
  qed
qed

subsection \<open>The claims\<close>

text \<open>
  C1: an upload whose declared content-type does not start with \<open>image/\<close> is answered
  with status 400 and the message "Invalid file type. Please upload an image.", and
  \<open>generate_content\<close> is not called.
\<close>

theorem non_image_rejected_400:
  assumes "content_type file = Some ct" and "\<not> startswith ct (py ''image/'')"
  shows "caption_image w model file =
           (HTTPException 400 (py ''Invalid file type. Please upload an image.''), [])"
  using assms by (simp add: caption_image_def)

theorem non_image_rejected_400_witness:
  "caption_image stub () notes_txt =
     (HTTPException 400 (py ''Invalid file type. Please upload an image.''), [])"
proof -
  have ct: "content_type notes_txt = Some (py ''text/plain'')"
    by (simp add: notes_txt_def)
  show ?thesis
    by (rule non_image_rejected_400 [OF ct not_startswith_text_plain])
qed

text \<open>
  C2: for an upload with an image content-type that is read and decoded, when
  \<open>generate_content\<close> returns and the text of its response, stripped, is a non-empty
  \<open>T\<close>, the handler returns status 200 with \<open>caption\<close> equal to \<open>T\<close> and
  \<open>filename\<close> equal to the upload's filename.
\<close>

theorem caption_is_trimmed_text:
  assumes "content_type file = Some ct" and "startswith ct (py ''image/'')"
    and "file_read w file = Inr image_data"
    and "Image_open w image_data = Inr img"
    and "generate_content w model [Text IMAGE_CAPTIONING_PROMPT, Img img] = Inr response"
    and "response_text response = Inr t"
    and "strip t \<noteq> []"
  shows "caption_image w model file =
           (JSONResponse 200 [(''filename'', json_of_optional (filename file)),
                              (''caption'', JString (strip t))],
            [[Text IMAGE_CAPTIONING_PROMPT, Img img]])"
proof -
  have "try_body w model file =
          (Inr (JSONResponse 200 [(''filename'', json_of_optional (filename file)),
                                  (''caption'', JString (strip t))]),
           [[Text IMAGE_CAPTIONING_PROMPT, Img img]])"
    using assms(3-7) by (simp add: try_body_success)
  with assms(1,2) show ?thesis
    by (simp add: caption_image_checked)
qed

theorem caption_is_trimmed_text_witness:
  "caption_image stub () test_png =
     (JSONResponse 200 [(''filename'', JString (py ''test.png'')),
                        (''caption'', JString (py ''A small red square.''))],
      [[Text IMAGE_CAPTIONING_PROMPT, Img 4]])"
proof -
  have gen: "generate_content stub () [Text IMAGE_CAPTIONING_PROMPT, Img 4] =
               Inr (Response (Inr (py '' A small red square.\<newline>'')))"
    by (simp add: stub_def)
  have tx: "response_text (Response (Inr (py '' A small red square.\<newline>''))) =
              Inr (py '' A small red square.\<newline>'')"
    by simp
  have ne: "strip (py '' A small red square.\<newline>'') \<noteq> []"
    unfolding strip_sample by (simp add: py_def)
  show ?thesis
    using caption_is_trimmed_text
      [OF test_png_type startswith_image_png stub_reads_png stub_opens_png gen tx ne]
    by (simp only: test_png_name strip_sample)
qed

text \<open>
  C3: under the same conditions, when the text of the response is empty once stripped,
  the handler returns status 200 with \<open>caption\<close> equal to the sentence
  "No caption could be generated for this image.".
\<close>

theorem empty_caption_fallback:
  assumes "content_type file = Some ct" and "startswith ct (py ''image/'')"
    and "file_read w file = Inr image_data"
    and "Image_open w image_data = Inr img"
    and "generate_content w model [Text IMAGE_CAPTIONING_PROMPT, Img img] = Inr response"
    and "response_text response = Inr t"
    and "strip t = []"
  shows "caption_image w model file =
           (JSONResponse 200
              [(''filename'', json_of_optional (filename file)),
               (''caption'', JString (py ''No caption could be generated for this image.''))],
            [[Text IMAGE_CAPTIONING_PROMPT, Img img]])"
proof -
  have "try_body w model file =
          (Inr (JSONResponse 200
                  [(''filename'', json_of_optional (filename file)),
                   (''caption'', JString (py ''No caption could be generated for this image.''))]),
           [[Text IMAGE_CAPTIONING_PROMPT, Img img]])"
    using assms(3-7) by (simp add: try_body_success)
  with assms(1,2) show ?thesis
    by (simp add: caption_image_checked)
qed

theorem empty_caption_fallback_witness:
  "caption_image blank_stub () test_png =
     (JSONResponse 200
        [(''filename'', JString (py ''test.png'')),
         (''caption'', JString (py ''No caption could be generated for this image.''))],
      [[Text IMAGE_CAPTIONING_PROMPT, Img 4]])"
proof -
  have rd: "file_read blank_stub test_png = Inr [137, 80, 78, 71]"
    by (simp add: blank_stub_def stub_def test_png_def)
  have op: "Image_open blank_stub [137, 80, 78, 71] = Inr 4"
    by (simp add: blank_stub_def stub_def)
  have gen: "generate_content blank_stub () [Text IMAGE_CAPTIONING_PROMPT, Img 4] =
               Inr (Response (Inr (py '' \<newline> '')))"
    by (simp add: blank_stub_def)
  have tx: "response_text (Response (Inr (py '' \<newline> ''))) = Inr (py '' \<newline> '')"
    by simp
  show ?thesis
    using empty_caption_fallback
      [OF test_png_type startswith_image_png rd op gen tx strip_blank]
    by (simp only: test_png_name)
qed

text \<open>
  C4: a provider error raised by the call of the model is answered with status 500 and
  the detail "Gemini API Error: " followed by the error's message. The handler does
  not do this: when the error reaches line 85, evaluating \<open>genai.APIError\<close> raises
  \<open>AttributeError\<close>, and that exception leaves the handler in place of the
  \<open>HTTPException\<close> of line 86. The theorem evaluates the handler on an image upload
  whose model call fails with a provider error.
\<close>

theorem provider_error_escapes:
  "caption_image quota_stub () test_png =
     (Uncaught (Exn AttributeError
        (py (''module 'google.generativeai' has no attribute 'APIError'' @ [CHR 0x27]))),
      [[Text IMAGE_CAPTIONING_PROMPT, Img 4]]) \<and>
   (\<forall>status detail. fst (caption_image quota_stub () test_png) \<noteq> HTTPException status detail)"
proof -
  have rd: "file_read quota_stub test_png = Inr [137, 80, 78, 71]"
    by (simp add: quota_stub_def stub_def test_png_def)
  have op: "Image_open quota_stub [137, 80, 78, 71] = Inr 4"
    by (simp add: quota_stub_def stub_def)
  have gen: "generate_content quota_stub () [Text IMAGE_CAPTIONING_PROMPT, Img 4] =
               Inl (Exn GoogleAPIError (py ''429 quota exceeded''))"
    by (simp add: quota_stub_def)
  show ?thesis
    by (simp add: failure_in_try_escapes [OF test_png_type startswith_image_png
          try_body_generate_fails [OF rd op gen]])
qed

text \<open>
  C5: every request ends in a 200 response, a 400 error or a 500 error, and no other
  exception leaves the handler. The handler does not do this for an upload with no
  declared content-type: the check of line 59 stands before the \<open>try\<close>, and its
  \<open>AttributeError\<close> leaves the handler as it is. The theorem evaluates the handler
  on such an upload. For the uploads that declare a content-type,
  \<open>declared_type_outcomes\<close> above lists the ways the handler ends: a failure inside
  the \<open>try\<close> leaves the handler too, as an \<open>AttributeError\<close> of line 85.
\<close>

theorem absent_content_type_not_answered:
  "caption_image stub () untyped_upload =
     (Uncaught (Exn AttributeError (py ('''NoneType' object has no attribute 'startswith'' @ [CHR 0x27]))), []) \<and>
   (\<forall>status content. fst (caption_image stub () untyped_upload) \<noteq> JSONResponse status content) \<and>
   (\<forall>status detail. fst (caption_image stub () untyped_upload) \<noteq> HTTPException status detail)"
  by (simp add: caption_image_def untyped_upload_def)

text \<open>
  C6: an image upload whose bytes cannot be decoded is answered with status 500 and the
  detail "An unexpected error occurred: " followed by the exception's message. The
  handler does not do this: the exception of \<open>Image.open\<close> meets the clause of line 85
  first, whose \<open>genai.APIError\<close> raises \<open>AttributeError\<close>, so the clause of line 87
  is never tried and no \<open>HTTPException\<close> is raised. The theorem evaluates the handler
  on an image upload that the decoder rejects.
\<close>

theorem undecodable_image_escapes:
  "caption_image stub () empty_png =
     (Uncaught (Exn AttributeError
        (py (''module 'google.generativeai' has no attribute 'APIError'' @ [CHR 0x27]))),
      []) \<and>
   (\<forall>status detail. fst (caption_image stub () empty_png) \<noteq> HTTPException status detail)"
proof -
  have ct: "content_type empty_png = Some (py ''image/png'')"
    by (simp add: empty_png_def)
  have rd: "file_read stub empty_png = Inr []"
    by (simp add: stub_def empty_png_def)
  have op: "Image_open stub [] = Inl (Exn OtherException (py ''cannot identify image file''))"
    by (simp add: stub_def)
  show ?thesis
    by (simp add: failure_in_try_escapes [OF ct startswith_image_png
          try_body_decode_fails [OF rd op]])
qed

text \<open>
  C7: when \<open>GOOGLE_API_KEY\<close> is unset or empty, the start of the module raises
  \<open>ValueError\<close> with a message that names the variable, the model handle is never
  built, and no request is answered: the failure is the start's, not a request's.
\<close>

theorem missing_key_fatal_at_startup:
  assumes "environ (py ''GOOGLE_API_KEY'') = None \<or> environ (py ''GOOGLE_API_KEY'') = Some []"
  shows "startup environ GenerativeModel =
           Inl (Exn ValueError
             (py ''GOOGLE_API_KEY not found in environment variables. Please set it in a .env file.'')) \<and>
         serve environ GenerativeModel w requests =
           Inl (Exn ValueError
             (py ''GOOGLE_API_KEY not found in environment variables. Please set it in a .env file.''))"
  using assms by (auto simp add: startup_def serve_def)

theorem missing_key_fatal_at_startup_witness:
  "startup Map.empty (\<lambda>name. Inr ()) =
     Inl (Exn ValueError
       (py ''GOOGLE_API_KEY not found in environment variables. Please set it in a .env file.'')) \<and>
   serve Map.empty (\<lambda>name. Inr ()) stub [test_png, notes_txt] =
     Inl (Exn ValueError
       (py ''GOOGLE_API_KEY not found in environment variables. Please set it in a .env file.''))"
proof -
  have unset: "Map.empty (py ''GOOGLE_API_KEY'') = None \<or>
               Map.empty (py ''GOOGLE_API_KEY'') = Some []"
    by simp
  show ?thesis
    by (rule missing_key_fatal_at_startup [OF unset])
qed

text \<open>
  C8: for every upload that reaches the call of the model (the content-type check
  passes, the bytes are read and decoded), whatever its bytes, filename and
  content-type: the prompt is the text of lines 33 to 38, character for character;
  the handler calls \<open>generate_content\<close> once, with that prompt and the decoded image;
  and its answer is what follows from the result of \<open>generate_content\<close> on exactly
  these contents.
\<close>

theorem prompt_passed_verbatim:
  assumes "content_type file = Some ct" and "startswith ct (py ''image/'')"
    and "file_read w file = Inr image_data"
    and "Image_open w image_data = Inr img"
  shows "IMAGE_CAPTIONING_PROMPT = py
           ''\<newline>Describe this image in detail. Focus on the main subjects, actions, setting, colors, and any discernible emotions or atmosphere.\<newline>Provide a concise yet comprehensive caption, suitable for accessibility purposes or a brief summary.\<newline>Make sure to include any notable features or context that would help someone understand the image without seeing it.\<newline>Translate to bahasa indonesia if necessary.\<newline>'' \<and>
         snd (caption_image w model file) = [[Text IMAGE_CAPTIONING_PROMPT, Img img]] \<and>
         fst (caption_image w model file) =
           (case generate_content w model [Text IMAGE_CAPTIONING_PROMPT, Img img] of
              Inl e \<Rightarrow> except_clauses e
            | Inr response \<Rightarrow>
                (case response_text response of
                   Inl e \<Rightarrow> except_clauses e
                 | Inr t \<Rightarrow>
                     JSONResponse 200
                       [(''filename'', json_of_optional (filename file)),
                        (''caption'', JString (if strip t = []
                                               then py ''No caption could be generated for this image.''
                                               else strip t))]))"
proof (intro conjI)
  show "IMAGE_CAPTIONING_PROMPT = py
           ''\<newline>Describe this image in detail. Focus on the main subjects, actions, setting, colors, and any discernible emotions or atmosphere.\<newline>Provide a concise yet comprehensive caption, suitable for accessibility purposes or a brief summary.\<newline>Make sure to include any notable features or context that would help someone understand the image without seeing it.\<newline>Translate to bahasa indonesia if necessary.\<newline>''"
    by (simp only: IMAGE_CAPTIONING_PROMPT_def)
next
  show "snd (caption_image w model file) = [[Text IMAGE_CAPTIONING_PROMPT, Img img]]"
    using assms
    by (simp add: caption_image_checked try_body_def Let_def split: sum.splits)
next
  show "fst (caption_image w model file) =
           (case generate_content w model [Text IMAGE_CAPTIONING_PROMPT, Img img] of
              Inl e \<Rightarrow> except_clauses e
            | Inr response \<Rightarrow>
                (case response_text response of
                   Inl e \<Rightarrow> except_clauses e
                 | Inr t \<Rightarrow>
                     JSONResponse 200
                       [(''filename'', json_of_optional (filename file)),
                        (''caption'', JString (if strip t = []
                                               then py ''No caption could be generated for this image.''
                                               else strip t))]))"
    using assms
    by (simp add: caption_image_checked try_body_def Let_def split: sum.splits)
qed

theorem prompt_passed_verbatim_witness:
  "IMAGE_CAPTIONING_PROMPT = py
     ''\<newline>Describe this image in detail. Focus on the main subjects, actions, setting, colors, and any discernible emotions or atmosphere.\<newline>Provide a concise yet comprehensive caption, suitable for accessibility purposes or a brief summary.\<newline>Make sure to include any notable features or context that would help someone understand the image without seeing it.\<newline>Translate to bahasa indonesia if necessary.\<newline>'' \<and>
   snd (caption_image strict_stub () test_png) = [[Text IMAGE_CAPTIONING_PROMPT, Img 4]] \<and>
   fst (caption_image strict_stub () test_png) =
     JSONResponse 200 [(''filename'', JString (py ''test.png'')),
                       (''caption'', JString (py ''A small red square.''))]"
proof -
  have rd: "file_read strict_stub test_png = Inr [137, 80, 78, 71]"
    by (simp add: strict_stub_def stub_def test_png_def)
  have op: "Image_open strict_stub [137, 80, 78, 71] = Inr 4"
    by (simp add: strict_stub_def stub_def)
  have gen: "generate_content strict_stub () [Text IMAGE_CAPTIONING_PROMPT, Img 4] =
               Inr (Response (Inr (py '' A small red square.\<newline>'')))"
    by (simp add: strict_stub_def strict_generate_def)
  have ne: "strip (py '' A small red square.\<newline>'') \<noteq> []"
    unfolding strip_sample by (simp add: py_def)
  note fixed = prompt_passed_verbatim [OF test_png_type startswith_image_png rd op, of "()"]
  from fixed have text_eq: "IMAGE_CAPTIONING_PROMPT = py
     ''\<newline>Describe this image in detail. Focus on the main subjects, actions, setting, colors, and any discernible emotions or atmosphere.\<newline>Provide a concise yet comprehensive caption, suitable for accessibility purposes or a brief summary.\<newline>Make sure to include any notable features or context that would help someone understand the image without seeing it.\<newline>Translate to bahasa indonesia if necessary.\<newline>''"
    by (rule conjunct1)
  from fixed have calls: "snd (caption_image strict_stub () test_png) =
      [[Text IMAGE_CAPTIONING_PROMPT, Img 4]]"
    by (rule conjunct1 [OF conjunct2])
  from fixed have "fst (caption_image strict_stub () test_png) =
      JSONResponse 200
        [(''filename'', json_of_optional (filename test_png)),
         (''caption'', JString (strip (py '' A small red square.\<newline>'')))]"
    by (simp add: gen ne)
  then have answer: "fst (caption_image strict_stub () test_png) =
      JSONResponse 200 [(''filename'', JString (py ''test.png'')),
                        (''caption'', JString (py ''A small red square.''))]"
    by (simp only: test_png_name strip_sample)
  from text_eq calls answer show ?thesis
    by (intro conjI)
qed

text \<open>
  C9: for an upload whose content-type is absent (\<open>None\<close>), the check of line 59
  raises \<open>AttributeError\<close> outside the \<open>try\<close>: the exception leaves the handler
  uncaught, the model is not called, and the request gets no \<open>HTTPException\<close>, so
  not the 400 answer either.
\<close>

theorem absent_content_type_escapes:
  assumes "content_type file = None"
  shows "caption_image w model file =
           (Uncaught (Exn AttributeError (py ('''NoneType' object has no attribute 'startswith'' @ [CHR 0x27]))), []) \<and>
         (\<forall>status detail. fst (caption_image w model file) \<noteq> HTTPException status detail)"
  using assms by (simp add: caption_image_def)

theorem absent_content_type_escapes_witness:
  "caption_image stub () untyped_upload =
     (Uncaught (Exn AttributeError (py ('''NoneType' object has no attribute 'startswith'' @ [CHR 0x27]))), []) \<and>
   (\<forall>status detail. fst (caption_image stub () untyped_upload) \<noteq> HTTPException status detail)"
proof -
  have none: "content_type untyped_upload = None"
    by (simp add: untyped_upload_def)
  show ?thesis
    by (rule absent_content_type_escapes [OF none])
qed



end
